theory Spec2Isabelle
  imports Complex_Main
begin

section \<open>JavaScript values\<close>

text \<open>
  The webhook of \<^verbatim>\<open>src/pages/api/webhook/shopify.js\<close> works on parsed JSON: the request
  body and the responses of the remote collaborators.

  A number is an IEEE double. The handlers never compute with numbers beyond one
  subtraction whose result is only compared with zero, and the sign of a double
  subtraction is the sign of the exact difference; so a finite number is modelled by its
  exact rational value, next to \<open>NaN\<close> and the two infinities. Negative zero is
  identified with zero (both are falsy and compare equal).

  A string is the list of the bytes of its UTF-8 encoding; equality of strings is equality
  of these lists. An object is the list of its own properties, each key once, in the
  order of their creation.
\<close>

datatype jsnum = NaN | PInf | NInf | Fin rat

datatype json =
    JUndefined
  | JNull
  | JBool bool
  | JNum jsnum
  | JStr string
  | JArr "json list"
  | JObj "(string \<times> json) list"

text \<open>What a \<^verbatim>\<open>throw\<close> carries: a \<^verbatim>\<open>TypeError\<close> of the runtime (a property read on
  \<^verbatim>\<open>null\<close>/\<^verbatim>\<open>undefined\<close>, a call of a missing method), or an \<^verbatim>\<open>Error\<close> with its message.\<close>

datatype exn = TypeError | Error string

subsection \<open>Numbers\<close>

fun num_sub :: "jsnum \<Rightarrow> jsnum \<Rightarrow> jsnum" where
  "num_sub NaN _ = NaN"
| "num_sub _ NaN = NaN"
| "num_sub (Fin a) (Fin b) = Fin (a - b)"
| "num_sub (Fin _) PInf = NInf"
| "num_sub (Fin _) NInf = PInf"
| "num_sub PInf PInf = NaN"
| "num_sub PInf _ = PInf"
| "num_sub NInf NInf = NaN"
| "num_sub NInf _ = NInf"

text \<open>\<^verbatim>\<open>a <= b\<close> and \<^verbatim>\<open>a > b\<close>: both false as soon as one side is \<open>NaN\<close>.\<close>

fun num_le :: "jsnum \<Rightarrow> jsnum \<Rightarrow> bool" where
  "num_le NaN _ = False"
| "num_le _ NaN = False"
| "num_le NInf _ = True"
| "num_le _ PInf = True"
| "num_le (Fin a) (Fin b) = (a \<le> b)"
| "num_le PInf _ = False"
| "num_le (Fin _) NInf = False"

fun num_gt :: "jsnum \<Rightarrow> jsnum \<Rightarrow> bool" where
  "num_gt NaN _ = False"
| "num_gt _ NaN = False"
| "num_gt (Fin a) (Fin b) = (a > b)"
| "num_gt PInf PInf = False"
| "num_gt PInf _ = True"
| "num_gt _ PInf = False"
| "num_gt NInf _ = False"
| "num_gt (Fin _) NInf = True"

text \<open>\<^verbatim>\<open>a === b\<close> on numbers: \<open>NaN\<close> equals nothing, itself included.\<close>

fun num_eq :: "jsnum \<Rightarrow> jsnum \<Rightarrow> bool" where
  "num_eq NaN _ = False"
| "num_eq _ NaN = False"
| "num_eq a b = (a = b)"

subsection \<open>Truthiness, property reads, strict equality\<close>

fun truthy :: "json \<Rightarrow> bool" where
  "truthy JUndefined = False"
| "truthy JNull = False"
| "truthy (JBool b) = b"
| "truthy (JNum NaN) = False"
| "truthy (JNum (Fin q)) = (q \<noteq> 0)"
| "truthy (JNum _) = True"
| "truthy (JStr s) = (s \<noteq> [])"
| "truthy (JArr _) = True"
| "truthy (JObj _) = True"

text \<open>\<^verbatim>\<open>a || b\<close>\<close>

definition jor :: "json \<Rightarrow> json \<Rightarrow> json" where
  "jor a b = (if truthy a then a else b)"

fun nullish :: "json \<Rightarrow> bool" where
  "nullish JUndefined = True"
| "nullish JNull = True"
| "nullish _ = False"

text \<open>
  \<^verbatim>\<open>v.k\<close> for a receiver that is not \<^verbatim>\<open>null\<close>/\<^verbatim>\<open>undefined\<close> and a key \<open>k\<close> that is
  neither an index nor \<^verbatim>\<open>length\<close> nor a prototype method: the own property of an object,
  \<^verbatim>\<open>undefined\<close> on everything else. The handlers guard no receiver; where the source
  reads a property of a value that can be \<^verbatim>\<open>null\<close>/\<^verbatim>\<open>undefined\<close>, the model raises
  \<open>TypeError\<close> at that place.
\<close>

fun lookup :: "(string \<times> json) list \<Rightarrow> string \<Rightarrow> json" where
  "lookup [] k = JUndefined"
| "lookup ((k', v) # kvs) k = (if k' = k then v else lookup kvs k)"

fun getProp :: "json \<Rightarrow> string \<Rightarrow> json" where
  "getProp (JObj kvs) k = lookup kvs k"
| "getProp _ k = JUndefined"

text \<open>\<^verbatim>\<open>v?.k\<close>\<close>

definition optProp :: "json \<Rightarrow> string \<Rightarrow> json" where
  "optProp v k = (if nullish v then JUndefined else getProp v k)"

text \<open>The number of bytes of the character that starts with the byte \<open>c\<close>.\<close>

definition charLength :: "char \<Rightarrow> nat" where
  "charLength c =
     (if (of_char c :: nat) < 0x80 then 1
      else if (of_char c :: nat) < 0xE0 then 2
      else if (of_char c :: nat) < 0xF0 then 3
      else 4)"

text \<open>\<^verbatim>\<open>v?.[0]\<close>: the first element of an array, the first character of a string, the
  property \<^verbatim>\<open>"0"\<close> of an object. (Of a character beyond the basic plane the source gets
  the first half; the handlers use such a value only for being truthy and having no
  properties.)\<close>

fun optIndex0 :: "json \<Rightarrow> json" where
  "optIndex0 (JArr (x # _)) = x"
| "optIndex0 (JStr (c # cs)) = JStr (take (charLength c) (c # cs))"
| "optIndex0 (JObj kvs) = lookup kvs ''0''"
| "optIndex0 _ = JUndefined"

text \<open>\<^verbatim>\<open>a === b\<close>. Two objects (or arrays) are equal only when they are the same
  reference; every comparison of the handlers has values of different origin on its two
  sides, so two objects are never equal there.\<close>

fun strict_eq :: "json \<Rightarrow> json \<Rightarrow> bool" where
  "strict_eq JUndefined JUndefined = True"
| "strict_eq JNull JNull = True"
| "strict_eq (JBool a) (JBool b) = (a = b)"
| "strict_eq (JNum a) (JNum b) = num_eq a b"
| "strict_eq (JStr a) (JStr b) = (a = b)"
| "strict_eq _ _ = False"

text \<open>\<^verbatim>\<open>obj.k = v\<close> on an object literal under construction: an existing key keeps its
  place, a new key goes last.\<close>

fun setField :: "string \<Rightarrow> json \<Rightarrow> (string \<times> json) list \<Rightarrow> (string \<times> json) list" where
  "setField k v [] = [(k, v)]"
| "setField k v ((k', v') # kvs) = (if k' = k then (k, v) # kvs else (k', v') # setField k v kvs)"

text \<open>\<^verbatim>\<open>Object.keys(obj)\<close>\<close>

definition Object_keys :: "(string \<times> json) list \<Rightarrow> string list" where
  "Object_keys kvs = map fst kvs"

subsection \<open>Strings\<close>

text \<open>
  \<^verbatim>\<open>toLowerCase\<close> is modelled on the letters A to Z. On other characters the model leaves
  the string as it is; the handlers compare a lower-cased tag only with the two preorder
  tags, and no character outside ASCII lower-cases to a letter of these tags, so the
  outcome of that comparison is the one of the source.
\<close>

definition lowerChar :: "char \<Rightarrow> char" where
  "lowerChar c =
     (case map_of (zip ''ABCDEFGHIJKLMNOPQRSTUVWXYZ'' ''abcdefghijklmnopqrstuvwxyz'') c of
        Some l \<Rightarrow> l
      | None \<Rightarrow> c)"

definition toLowerCase :: "string \<Rightarrow> string" where
  "toLowerCase s = map lowerChar s"

text \<open>
  The characters that \<^verbatim>\<open>trim\<close> removes, in UTF-8: the white space of the language (tab,
  vertical tab, form feed, space, U+00A0, U+FEFF and the other space separators U+1680,
  U+2000 to U+200A, U+202F, U+205F, U+3000) and its line terminators (line feed, carriage
  return, U+2028, U+2029).
\<close>

definition whiteSpace :: "string list" where
  "whiteSpace =
     [[CHR 0x09], [CHR 0x0A], [CHR 0x0B], [CHR 0x0C], [CHR 0x0D], [CHR 0x20],
      [CHR 0xC2, CHR 0xA0],
      [CHR 0xE1, CHR 0x9A, CHR 0x80],
      [CHR 0xE2, CHR 0x80, CHR 0x80], [CHR 0xE2, CHR 0x80, CHR 0x81],
      [CHR 0xE2, CHR 0x80, CHR 0x82], [CHR 0xE2, CHR 0x80, CHR 0x83],
      [CHR 0xE2, CHR 0x80, CHR 0x84], [CHR 0xE2, CHR 0x80, CHR 0x85],
      [CHR 0xE2, CHR 0x80, CHR 0x86], [CHR 0xE2, CHR 0x80, CHR 0x87],
      [CHR 0xE2, CHR 0x80, CHR 0x88], [CHR 0xE2, CHR 0x80, CHR 0x89],
      [CHR 0xE2, CHR 0x80, CHR 0x8A],
      [CHR 0xE2, CHR 0x80, CHR 0xA8], [CHR 0xE2, CHR 0x80, CHR 0xA9],
      [CHR 0xE2, CHR 0x80, CHR 0xAF],
      [CHR 0xE2, CHR 0x81, CHR 0x9F],
      [CHR 0xE3, CHR 0x80, CHR 0x80],
      [CHR 0xEF, CHR 0xBB, CHR 0xBF]]"

text \<open>Removing from the head of a string, as long as there is one, a character of a given
  list.\<close>

function stripHead :: "string list \<Rightarrow> string \<Rightarrow> string" where
  "stripHead ws s =
     (case find (\<lambda>w. w \<noteq> [] \<and> take (length w) s = w) ws of
        None \<Rightarrow> s
      | Some w \<Rightarrow> stripHead ws (drop (length w) s))"
  by pat_completeness auto
termination
proof (relation "measure (\<lambda>(ws, s). length s)")
  show "wf (measure (\<lambda>(ws, s). length s))"
    by simp
next
  fix ws :: "string list" and s w :: string
  assume "find (\<lambda>w. w \<noteq> [] \<and> take (length w) s = w) ws = Some w"
  then have "w \<noteq> []" and "take (length w) s = w"
    by (auto simp: find_Some_iff)
  then have "s \<noteq> []"
    by auto
  with \<open>w \<noteq> []\<close> show "((ws, drop (length w) s), (ws, s)) \<in> measure (\<lambda>(ws, s). length s)"
    by simp
qed

declare stripHead.simps [simp del]

text \<open>\<^verbatim>\<open>s.trim()\<close>: white space and line terminators go from both ends.\<close>

definition trimStart :: "string \<Rightarrow> string" where
  "trimStart s = stripHead whiteSpace s"

definition trimEnd :: "string \<Rightarrow> string" where
  "trimEnd s = rev (stripHead (map rev whiteSpace) (rev s))"

definition trim :: "string \<Rightarrow> string" where
  "trim s = trimEnd (trimStart s)"

text \<open>\<^verbatim>\<open>s.split(',')\<close>: always at least one piece.\<close>

fun split_comma :: "string \<Rightarrow> string list" where
  "split_comma [] = [[]]"
| "split_comma (c # cs) =
     (if c = CHR '','' then [] # split_comma cs
      else (case split_comma cs of
              [] \<Rightarrow> [[c]]
            | w # ws \<Rightarrow> (c # w) # ws))"

text \<open>\<^verbatim>\<open>pieces.join(',')\<close>\<close>

fun join_comma :: "string list \<Rightarrow> string" where
  "join_comma [] = []"
| "join_comma [s] = s"
| "join_comma (s # t # ss) = s @ '','' @ join_comma (t # ss)"

section \<open>The collaborators\<close>

text \<open>
  The webhook imports its collaborators from other modules of the repository
  (\<^verbatim>\<open>lib/bitrix/client.js\<close>, \<^verbatim>\<open>lib/bitrix/orderMapper.js\<close>, \<^verbatim>\<open>lib/bitrix/contact.js\<close>,
  \<^verbatim>\<open>lib/bitrix/config.js\<close>, \<^verbatim>\<open>lib/shopify/adminClient.js\<close>, \<^verbatim>\<open>lib/adapters/shopify\<close>).
  They are parameters of the model, collected in one record, together with three built-ins
  of the language whose text formats are not modelled (\<^verbatim>\<open>String\<close> of a number,
  \<^verbatim>\<open>Number\<close> of a string, \<^verbatim>\<open>JSON.stringify\<close>).

  A remote collaborator answers with a value or throws: \<open>exn + json\<close>. One run of the
  webhook calls each remote operation at most once, so an answer that is a function of the
  call's arguments covers every deterministic remote behaviour of a run. The two category
  identifiers of \<^verbatim>\<open>BITRIX_CONFIG\<close> are arbitrary values.
\<close>

text \<open>
  Modelled from the spec: the result type of the Field Mapper
  \<^verbatim>\<open>mapShopifyOrderToBitrixDeal\<close>, whose code is in \<^verbatim>\<open>lib/bitrix/orderMapper.js\<close>. The
  specification gives its contract as ``\<^verbatim>\<open>map(order)\<close> to \<^verbatim>\<open>(dealFields, productRows)\<close>,
  total and side-effect-free'': it returns the deal fields and the list of product rows,
  and does not throw.
\<close>

record mapped =
  dealFields :: "(string \<times> json) list"
  productRows :: "json list"

text \<open>
  Modelled from the spec: the types of the Status Policy
  (\<^verbatim>\<open>financialStatusToStageId\<close>, \<^verbatim>\<open>financialStatusToPaymentStatus\<close>), whose code is in
  \<^verbatim>\<open>lib/bitrix/config.js\<close>. The specification calls them ``pure table lookups'' and
  total functions; they return a value for every status and do not throw.
\<close>

record env =
  NumberToString :: "jsnum \<Rightarrow> string"
  StringToNumber :: "string \<Rightarrow> jsnum"
  JSON_stringify :: "json \<Rightarrow> string"
  CATEGORY_PREORDER :: json
  CATEGORY_STOCK :: json
  financialStatusToStageId :: "json \<Rightarrow> json \<Rightarrow> json"
  financialStatusToPaymentStatus :: "json \<Rightarrow> json"
  mapShopifyOrderToBitrixDeal :: "json \<Rightarrow> mapped"
  getBitrixWebhookBase :: "exn + json"
  upsertBitrixContact :: "json \<Rightarrow> json \<Rightarrow> exn + json"
  callBitrix :: "string \<Rightarrow> json \<Rightarrow> exn + json"
  getOrder :: "string \<Rightarrow> exn + json"
  storeEvent :: "json \<Rightarrow> exn + json"

subsection \<open>Conversions\<close>

text \<open>
  \<^verbatim>\<open>String(v)\<close>, \<^verbatim>\<open>Number(v)\<close> and a template literal that holds \<open>v\<close> first turn an
  object into a primitive, by its \<^verbatim>\<open>toString\<close>. A parsed JSON object with an own property
  \<^verbatim>\<open>toString\<close> has a value there that cannot be called, and the conversion throws a
  \<^verbatim>\<open>TypeError\<close>; so does the conversion of an array that holds such an object, since an
  array prints its elements.
\<close>

fun unprintable :: "json \<Rightarrow> bool" where
  "unprintable (JObj kvs) = (''toString'' \<in> set (map fst kvs))"
| "unprintable (JArr xs) = list_ex unprintable xs"
| "unprintable _ = False"

text \<open>The string of a value that can be printed: an array prints its elements separated
  by commas, \<^verbatim>\<open>null\<close> and \<^verbatim>\<open>undefined\<close> elements as nothing.\<close>

fun stringOf :: "env \<Rightarrow> json \<Rightarrow> string" where
  "stringOf E JUndefined = ''undefined''"
| "stringOf E JNull = ''null''"
| "stringOf E (JBool b) = (if b then ''true'' else ''false'')"
| "stringOf E (JNum n) = NumberToString E n"
| "stringOf E (JStr s) = s"
| "stringOf E (JArr xs) = join_comma (map (\<lambda>x. if nullish x then [] else stringOf E x) xs)"
| "stringOf E (JObj kvs) = ''[object Object]''"

text \<open>\<^verbatim>\<open>String(v)\<close>\<close>

definition ToString :: "env \<Rightarrow> json \<Rightarrow> exn + string" where
  "ToString E v = (if unprintable v then Inl TypeError else Inr (stringOf E v))"

text \<open>The number of a value that can be printed: an array or object goes through its
  string.\<close>

fun numberOf :: "env \<Rightarrow> json \<Rightarrow> jsnum" where
  "numberOf E JUndefined = NaN"
| "numberOf E JNull = Fin 0"
| "numberOf E (JBool b) = (if b then Fin 1 else Fin 0)"
| "numberOf E (JNum n) = n"
| "numberOf E (JStr s) = StringToNumber E s"
| "numberOf E v = StringToNumber E (stringOf E v)"

text \<open>\<^verbatim>\<open>Number(v)\<close>\<close>

definition ToNumber :: "env \<Rightarrow> json \<Rightarrow> exn + jsnum" where
  "ToNumber E v = (if unprintable v then Inl TypeError else Inr (numberOf E v))"

text \<open>A template literal with the values \<open>vs\<close> in its holes: each value is converted to a
  string, in order. The handlers only log the text, so the model keeps the exception, if
  there is one, and drops the text.\<close>

fun template :: "env \<Rightarrow> json list \<Rightarrow> exn + unit" where
  "template E [] = Inr ()"
| "template E (v # vs) = (case ToString E v of Inl e \<Rightarrow> Inl e | Inr _ \<Rightarrow> template E vs)"

text \<open>Sequencing of computations that call nothing: the first exception ends them.\<close>

definition bindE :: "exn + 'a \<Rightarrow> ('a \<Rightarrow> exn + 'b) \<Rightarrow> exn + 'b" where
  "bindE m f = (case m of Inl e \<Rightarrow> Inl e | Inr x \<Rightarrow> f x)"

section \<open>Effects: the calls of a run, and exceptions\<close>

text \<open>
  The observable effects of the webhook are its calls of the remote collaborators. A
  computation is its outcome (a value, or the exception thrown) and the list of the calls
  it made, in order. Logging is modelled as far as it can throw: by the conversions of its
  template literals.
\<close>

datatype call =
    StoreEvent json
  | UpsertContact json json
  | CallBitrix string json
  | GetOrder string

type_synonym 'a run = "(exn + 'a) \<times> call list"

definition ret :: "'a \<Rightarrow> 'a run" where
  "ret x = (Inr x, [])"

definition throw :: "exn \<Rightarrow> 'a run" where
  "throw e = (Inl e, [])"

text \<open>A computation that calls nothing.\<close>

definition lift :: "exn + 'a \<Rightarrow> 'a run" where
  "lift r = (r, [])"

text \<open>\<^verbatim>\<open>await c\<close>: the call is made, and its answer is the outcome.\<close>

definition await :: "call \<Rightarrow> exn + 'a \<Rightarrow> 'a run" where
  "await c answer = (answer, [c])"

text \<open>Sequencing: an exception of the first part skips the second.\<close>

definition andThen :: "'a run \<Rightarrow> ('a \<Rightarrow> 'b run) \<Rightarrow> 'b run" where
  "andThen m f =
     (case m of
        (Inl e, t) \<Rightarrow> (Inl e, t)
      | (Inr x, t) \<Rightarrow> (case f x of (r, t') \<Rightarrow> (r, t @ t')))"

text \<open>\<^verbatim>\<open>try { m } catch (e) { h(e) }\<close>\<close>

definition tryCatch :: "'a run \<Rightarrow> (exn \<Rightarrow> 'a run) \<Rightarrow> 'a run" where
  "tryCatch m h =
     (case m of
        (Inl e, t) \<Rightarrow> (case h e of (r, t') \<Rightarrow> (r, t @ t'))
      | (Inr x, t) \<Rightarrow> (Inr x, t))"

definition callBitrixM :: "env \<Rightarrow> string \<Rightarrow> json \<Rightarrow> json run" where
  "callBitrixM E endpoint params = await (CallBitrix endpoint params) (callBitrix E endpoint params)"

section \<open>The handlers\<close>

abbreviation deal_add :: string where "deal_add \<equiv> ''/crm.deal.add.json''"
abbreviation deal_list :: string where "deal_list \<equiv> ''/crm.deal.list.json''"
abbreviation deal_update :: string where "deal_update \<equiv> ''/crm.deal.update.json''"
abbreviation productrows_set :: string where "productrows_set \<equiv> ''/crm.deal.productrows.set.json''"

text \<open>The field that holds the payment status of a deal.\<close>

abbreviation UF_PAYMENT :: string where "UF_PAYMENT \<equiv> ''UF_CRM_1739183959976''"

subsection \<open>Order created\<close>

text \<open>The parameter object of \<^verbatim>\<open>/crm.deal.productrows.set.json\<close> (lines 72--75, 182--185,
  189--192, 278--281).\<close>

definition rowsParams :: "json \<Rightarrow> json list \<Rightarrow> json" where
  "rowsParams dealId rows = JObj [(''id'', dealId), (''rows'', JArr rows)]"

text \<open>Lines 41--51: the contact upsert, whose failure is swallowed; the result is the deal
  fields, with \<^verbatim>\<open>CONTACT_ID\<close> when a contact was obtained.\<close>

definition withContact :: "env \<Rightarrow> json \<Rightarrow> (string \<times> json) list \<Rightarrow> (string \<times> json) list run" where
  "withContact E order fields' =
     tryCatch
       (case getBitrixWebhookBase E of
          Inl e \<Rightarrow> throw e
        | Inr bitrixBase \<Rightarrow>
            andThen (await (UpsertContact bitrixBase order) (upsertBitrixContact E bitrixBase order))
              (\<lambda>contactId.
                 ret (if truthy contactId then setField ''CONTACT_ID'' contactId fields' else fields')))
       (\<lambda>contactError. ret fields')"

text \<open>Lines 21--84. The template literals of lines 22 and 67 are outside every
  \<^verbatim>\<open>try\<close>; the one of line 76 prints the deal identifier that line 67 has printed.\<close>

definition handleOrderCreated :: "env \<Rightarrow> json \<Rightarrow> json run" where
  "handleOrderCreated E order =
     (if nullish order then throw TypeError
      else
        andThen (lift (template E [jor (getProp order ''name'') (getProp order ''id'')]))
          (\<lambda>_.
             let m = mapShopifyOrderToBitrixDeal E order in
             andThen (withContact E order (dealFields m))
               (\<lambda>fields'.
                  andThen (callBitrixM E deal_add (JObj [(''fields'', JObj fields')]))
                    (\<lambda>dealAddResp.
                       if nullish dealAddResp then throw TypeError
                       else if \<not> truthy (getProp dealAddResp ''result'') then
                         throw (Error (''Failed to create deal: '' @ JSON_stringify E dealAddResp))
                       else
                         let dealId = getProp dealAddResp ''result'' in
                         andThen (lift (template E [dealId]))
                           (\<lambda>_.
                              andThen
                                (if length (productRows m) > 0 then
                                   tryCatch
                                     (andThen
                                        (callBitrixM E productrows_set
                                           (rowsParams dealId (productRows m)))
                                        (\<lambda>_. ret ()))
                                     (\<lambda>productRowsError. ret ())
                                 else ret ())
                                (\<lambda>_. ret dealId))))))"

subsection \<open>Order updated\<close>

text \<open>The parameter object of \<^verbatim>\<open>/crm.deal.list.json\<close> (lines 95--98 and 220--223).\<close>

definition listParams :: "string \<Rightarrow> json" where
  "listParams shopifyOrderId =
     JObj [(''filter'', JObj [(''UF_SHOPIFY_ORDER_ID'', JStr shopifyOrderId)]),
           (''select'', JArr [JStr ''ID'', JStr ''OPPORTUNITY'', JStr ''STAGE_ID'', JStr ''CATEGORY_ID''])]"

text \<open>\<^verbatim>\<open>listResp.result?.[0]\<close> (lines 100 and 225), for a response that is not
  \<^verbatim>\<open>null\<close>/\<^verbatim>\<open>undefined\<close>.\<close>

definition firstResult :: "json \<Rightarrow> json" where
  "firstResult listResp = optIndex0 (getProp listResp ''result'')"

text \<open>\<^verbatim>\<open>Number(deal.CATEGORY_ID) || 2\<close> (lines 107 and 232).\<close>

definition currentCategory :: "env \<Rightarrow> json \<Rightarrow> exn + json" where
  "currentCategory E deal =
     bindE (ToNumber E (getProp deal ''CATEGORY_ID'')) (\<lambda>n. Inr (jor (JNum n) (JNum (Fin 2))))"

text \<open>Lines 111--113: the tags of the order, from an array or from a delimited string.\<close>

definition orderTags :: "env \<Rightarrow> json \<Rightarrow> exn + json list" where
  "orderTags E order =
     (case getProp order ''tags'' of
        JArr ts \<Rightarrow> Inr ts
      | tags \<Rightarrow>
          if truthy tags
          then bindE (ToString E tags) (\<lambda>s. Inr (map (\<lambda>t. JStr (trim t)) (split_comma s)))
          else Inr [])"

definition preorderTags :: "string list" where
  "preorderTags = [''pre-order'', ''preorder-product-added'']"

text \<open>Lines 116--118: \<^verbatim>\<open>some\<close> stops at the first tag that matches; calling
  \<^verbatim>\<open>toLowerCase\<close> on a tag that is not a string throws.\<close>

fun hasPreorderTag :: "json list \<Rightarrow> exn + bool" where
  "hasPreorderTag [] = Inr False"
| "hasPreorderTag (JStr tag # tags) =
     (if list_ex (\<lambda>preorderTag. toLowerCase tag = toLowerCase preorderTag) preorderTags
      then Inr True else hasPreorderTag tags)"
| "hasPreorderTag (_ # tags) = Inl TypeError"

text \<open>Lines 111--120: the category the order's tags route to.\<close>

definition orderCategory :: "env \<Rightarrow> json \<Rightarrow> exn + json" where
  "orderCategory E order =
     bindE (orderTags E order)
       (\<lambda>tags. bindE (hasPreorderTag tags)
          (\<lambda>hasTag. Inr (if hasTag then CATEGORY_PREORDER E else CATEGORY_STOCK E)))"

text \<open>Lines 156--162: the guard of the shipping price, and the chain its value comes from.\<close>

definition firstShippingLinePrice :: "json \<Rightarrow> json" where
  "firstShippingLinePrice order = optProp (optIndex0 (getProp order ''shipping_lines'')) ''price''"

definition shopMoneyAmount :: "json \<Rightarrow> json" where
  "shopMoneyAmount priceSet = optProp (optProp priceSet ''shop_money'') ''amount''"

definition shippingSource :: "json \<Rightarrow> json" where
  "shippingSource order =
     jor (jor (jor (jor (shopMoneyAmount (getProp order ''current_total_shipping_price_set''))
                        (shopMoneyAmount (getProp order ''total_shipping_price_set'')))
                   (getProp order ''shipping_price''))
              (firstShippingLinePrice order))
         (JNum (Fin 0))"

definition shippingPrice :: "env \<Rightarrow> json \<Rightarrow> exn + jsnum" where
  "shippingPrice E order = ToNumber E (shippingSource order)"

text \<open>The amount of the order (line 132).\<close>

definition orderAmount :: "json \<Rightarrow> json" where
  "orderAmount order =
     jor (jor (getProp order ''current_total_price'') (getProp order ''total_price'')) (JNum (Fin 0))"

text \<open>Lines 122--165: the fields of the update, for the deal found, the category the tags
  route to and the current category of the deal. The template literals of lines 128, 141
  and 147 are part of it.\<close>

definition updateFields ::
    "env \<Rightarrow> json \<Rightarrow> json \<Rightarrow> json \<Rightarrow> json \<Rightarrow> exn + (string \<times> json) list" where
  "updateFields E order deal categoryId currentCategoryId =
     bindE (if \<not> strict_eq categoryId currentCategoryId
            then template E [currentCategoryId, categoryId] else Inr ())
       (\<lambda>_.
     let fields1 = (if \<not> strict_eq categoryId currentCategoryId
                    then setField ''CATEGORY_ID'' categoryId [] else [])
     in
     bindE (ToNumber E (orderAmount order))
       (\<lambda>newAmount.
     bindE (ToNumber E (getProp deal ''OPPORTUNITY''))
       (\<lambda>dealAmount.
     let fields2 = (if \<not> num_eq newAmount dealAmount
                    then setField ''OPPORTUNITY'' (JNum newAmount) fields1 else fields1);
         stageId = financialStatusToStageId E (getProp order ''financial_status'') categoryId
     in
     bindE (if \<not> strict_eq stageId (getProp deal ''STAGE_ID'')
            then template E [getProp deal ''STAGE_ID'', stageId] else Inr ())
       (\<lambda>_.
     let fields3 = (if \<not> strict_eq stageId (getProp deal ''STAGE_ID'')
                    then setField ''STAGE_ID'' stageId fields2 else fields2);
         paymentStatusEnumId = financialStatusToPaymentStatus E (getProp order ''financial_status'');
         fields4 = setField UF_PAYMENT paymentStatusEnumId fields3
     in
     bindE (template E [paymentStatusEnumId, getProp order ''financial_status''])
       (\<lambda>_.
     bindE (if \<not> strict_eq (getProp order ''current_total_discounts'') JUndefined
            then bindE (ToNumber E (getProp order ''current_total_discounts''))
                   (\<lambda>n. Inr (setField ''UF_SHOPIFY_TOTAL_DISCOUNT'' (JNum n) fields4))
            else Inr fields4)
       (\<lambda>fields5.
     bindE (if \<not> strict_eq (getProp order ''current_total_tax'') JUndefined
            then bindE (ToNumber E (getProp order ''current_total_tax''))
                   (\<lambda>n. Inr (setField ''UF_SHOPIFY_TOTAL_TAX'' (JNum n) fields5))
            else Inr fields5)
       (\<lambda>fields6.
     if \<not> strict_eq (firstShippingLinePrice order) JUndefined
     then bindE (shippingPrice E order)
            (\<lambda>n. Inr (setField ''UF_SHOPIFY_SHIPPING_PRICE'' (JNum n) fields6))
     else Inr fields6)))))))"

definition updateParams :: "json \<Rightarrow> (string \<times> json) list \<Rightarrow> json" where
  "updateParams dealId fields' = JObj [(''id'', dealId), (''fields'', JObj fields')]"

text \<open>Lines 89--201. Everything before the \<^verbatim>\<open>try\<close> of line 179 propagates to the
  caller: the template literals of lines 90 and 108, \<^verbatim>\<open>String\<close> and \<^verbatim>\<open>Number\<close>, the
  lookup, the computation of the fields and the update call. The template literals of
  lines 173, 186 and 193 print the deal identifier that line 108 has printed.\<close>

definition handleOrderUpdated :: "env \<Rightarrow> json \<Rightarrow> json run" where
  "handleOrderUpdated E order =
     (if nullish order then throw TypeError
      else
        andThen (lift (template E [jor (getProp order ''name'') (getProp order ''id'')]))
          (\<lambda>_.
        andThen (lift (ToString E (getProp order ''id'')))
          (\<lambda>shopifyOrderId.
        andThen (callBitrixM E deal_list (listParams shopifyOrderId))
          (\<lambda>listResp.
             if nullish listResp then throw TypeError
             else
               let deal = firstResult listResp in
               if \<not> truthy deal then ret JUndefined
               else
                 let dealId = getProp deal ''ID'' in
                 andThen (lift (currentCategory E deal))
                   (\<lambda>currentCategoryId.
                 andThen (lift (template E [dealId, JStr shopifyOrderId, currentCategoryId]))
                   (\<lambda>_.
                 andThen (lift (orderCategory E order))
                   (\<lambda>categoryId.
                 andThen (lift (updateFields E order deal categoryId currentCategoryId))
                   (\<lambda>fields'.
                 andThen
                   (if length (Object_keys fields') > 0 then
                      andThen (callBitrixM E deal_update (updateParams dealId fields'))
                        (\<lambda>_. ret ())
                    else ret ())
                   (\<lambda>_.
                 andThen
                   (tryCatch
                      (let rows = productRows (mapShopifyOrderToBitrixDeal E order) in
                       if length rows > 0 then
                         andThen (callBitrixM E productrows_set (rowsParams dealId rows))
                           (\<lambda>_. ret ())
                       else
                         andThen (callBitrixM E productrows_set (rowsParams dealId []))
                           (\<lambda>_. ret ()))
                      (\<lambda>productRowsError. ret ()))
                   (\<lambda>_. ret dealId))))))))))"

subsection \<open>Refund created\<close>

text \<open>Lines 249--268: the fields of the update after a refund.\<close>

definition refundFields ::
    "env \<Rightarrow> json \<Rightarrow> json \<Rightarrow> (string \<times> json) list \<Rightarrow> json \<Rightarrow> exn + (string \<times> json) list" where
  "refundFields E refundData shopifyOrder mappedFields currentCategoryId =
     (let fields' = [(''OPPORTUNITY'', lookup mappedFields ''OPPORTUNITY''),
                     (''UF_SHOPIFY_TOTAL_DISCOUNT'', lookup mappedFields ''UF_SHOPIFY_TOTAL_DISCOUNT''),
                     (''UF_SHOPIFY_SHIPPING_PRICE'', lookup mappedFields ''UF_SHOPIFY_SHIPPING_PRICE''),
                     (''UF_SHOPIFY_TOTAL_TAX'', lookup mappedFields ''UF_SHOPIFY_TOTAL_TAX'')]
      in
      bindE (ToNumber E (jor (getProp refundData ''amount'') (JNum (Fin 0))))
        (\<lambda>refundAmount.
      bindE (ToNumber E (jor (getProp shopifyOrder ''total_price'') (JNum (Fin 0))))
        (\<lambda>orderTotal.
      let remainingAmount = num_sub orderTotal refundAmount in
      Inr (if num_le remainingAmount (Fin 0) then
             setField ''STAGE_ID'' (financialStatusToStageId E (JStr ''refunded'') currentCategoryId)
               (setField UF_PAYMENT (JStr ''58'') fields')
           else if num_gt refundAmount (Fin 0) then
             setField UF_PAYMENT (JStr ''58'') fields'
           else fields'))))"

text \<open>Lines 207--291. \<^verbatim>\<open>String\<close> of line 217, \<^verbatim>\<open>Number\<close> of line 232 and the template
  literal of line 233 are outside the \<^verbatim>\<open>try\<close> of line 236. The order fetch (lines
  237--238) is one remote operation: the module import and the call of \<^verbatim>\<open>getOrder\<close>.\<close>

definition handleRefundCreated :: "env \<Rightarrow> json \<Rightarrow> json run" where
  "handleRefundCreated E refundData =
     (if nullish refundData then throw TypeError
      else
        andThen (lift (ToString E (getProp refundData ''order_id'')))
          (\<lambda>shopifyOrderId.
        andThen (callBitrixM E deal_list (listParams shopifyOrderId))
          (\<lambda>listResp.
             if nullish listResp then throw TypeError
             else
               let deal = firstResult listResp in
               if \<not> truthy deal then ret JUndefined
               else
                 let dealId = getProp deal ''ID'' in
                 andThen (lift (currentCategory E deal))
                   (\<lambda>currentCategoryId.
                 andThen (lift (template E [dealId, JStr shopifyOrderId]))
                   (\<lambda>_.
                 tryCatch
                   (andThen (await (GetOrder shopifyOrderId) (getOrder E shopifyOrderId))
                      (\<lambda>shopifyOrder.
                         if \<not> truthy shopifyOrder then ret JUndefined
                         else
                           let m = mapShopifyOrderToBitrixDeal E shopifyOrder in
                           andThen
                             (lift (refundFields E refundData shopifyOrder (dealFields m)
                                      currentCategoryId))
                             (\<lambda>fields'.
                           andThen (callBitrixM E deal_update (updateParams dealId fields'))
                             (\<lambda>_.
                           andThen
                             (if length (productRows m) > 0 then
                                andThen
                                  (callBitrixM E productrows_set
                                     (rowsParams dealId (productRows m)))
                                  (\<lambda>_. ret ())
                              else ret ())
                             (\<lambda>_. ret dealId)))))
                   (\<lambda>error. ret dealId))))))"

subsection \<open>The entry point\<close>

text \<open>A request: its method, its headers (each a string) and its parsed body.\<close>

record request =
  req_method :: string
  req_headers :: "(string \<times> string) list"
  req_body :: json

text \<open>
  What the caller gets: \<^verbatim>\<open>res.status(n).end(text)\<close>, \<^verbatim>\<open>res.status(n).json(v)\<close>, the
  failure reply of lines 361--365, which holds the message of the exception, or no reply
  from this code at all, when the handler itself throws.
\<close>

datatype reply =
    EndText nat string
  | SendJson nat json
  | SendFailure nat exn string
  | Rejected exn

fun status :: "reply \<Rightarrow> nat option" where
  "status (EndText n _) = Some n"
| "status (SendJson n _) = Some n"
| "status (SendFailure n _ _) = Some n"
| "status (Rejected _) = None"

text \<open>\<^verbatim>\<open>req.headers[name]\<close>\<close>

definition header :: "request \<Rightarrow> string \<Rightarrow> json" where
  "header req name = (case map_of (req_headers req) name of Some v \<Rightarrow> JStr v | None \<Rightarrow> JUndefined)"

text \<open>Line 312.\<close>

definition topicOf :: "request \<Rightarrow> json" where
  "topicOf req = jor (header req ''x-shopify-topic'') (header req ''X-Shopify-Topic'')"

text \<open>Lines 323 and 324: the identifier and the name that the log lines 326 and 327
  print.\<close>

definition orderIdOf :: "json \<Rightarrow> json" where
  "orderIdOf order =
     jor (jor (jor (optProp order ''id'') (optProp order ''order_id''))
              (optProp (optProp order ''order'') ''id''))
         (JStr ''N/A'')"

definition orderNameOf :: "json \<Rightarrow> json" where
  "orderNameOf order =
     jor (jor (jor (optProp order ''name'') (optProp order ''order_name''))
              (optProp (optProp order ''order'') ''name''))
         (JStr ''N/A'')"

text \<open>Lines 344--354: one handler per topic; any other topic is acknowledged without a
  call.\<close>

definition dispatch :: "env \<Rightarrow> json \<Rightarrow> json \<Rightarrow> json run" where
  "dispatch E topic order =
     (if strict_eq topic (JStr ''orders/create'') then handleOrderCreated E order
      else if strict_eq topic (JStr ''orders/updated'') then handleOrderUpdated E order
      else if strict_eq topic (JStr ''refunds/create'') then handleRefundCreated E order
      else ret JUndefined)"

text \<open>
  Lines 293--367. The request identifier, drawn from the clock and a random number at
  line 295, is an input. The template literals of lines 326 and 327 stand before the
  \<^verbatim>\<open>try\<close> of line 335: when one of them throws, the handler throws. The other template
  literals of the function print the method, the headers, numbers and the two values that
  lines 326 and 327 have printed.
\<close>

definition handler :: "env \<Rightarrow> string \<Rightarrow> request \<Rightarrow> reply \<times> call list" where
  "handler E requestId req =
     (if req_method req \<noteq> ''POST'' then (EndText 405 ''Method not allowed'', [])
      else
        let topic = topicOf req;
            order = req_body req
        in
        (case bindE (template E [orderIdOf order]) (\<lambda>_. template E [orderNameOf order]) of
           Inl e \<Rightarrow> (Rejected e, [])
         | Inr _ \<Rightarrow>
             (case andThen
                     (tryCatch (await (StoreEvent order) (storeEvent E order))
                        (\<lambda>storeError. ret JUndefined))
                     (\<lambda>_. dispatch E topic order)
              of
                (Inr _, t) \<Rightarrow>
                  (SendJson 200 (JObj [(''success'', JBool True), (''requestId'', JStr requestId),
                                       (''topic'', topic)]), t)
              | (Inl e, t) \<Rightarrow> (SendFailure 500 e requestId, t))))"

section \<open>Reading a run\<close>

text \<open>The calls of a run that go to one endpoint of the CRM, and the calls that change
  the CRM (create a deal, update a deal, replace the product rows).\<close>

definition isCallTo :: "string \<Rightarrow> call \<Rightarrow> bool" where
  "isCallTo endpoint c = (case c of CallBitrix e _ \<Rightarrow> e = endpoint | _ \<Rightarrow> False)"

definition callsTo :: "string \<Rightarrow> call list \<Rightarrow> call list" where
  "callsTo endpoint t = filter (isCallTo endpoint) t"

definition isMutation :: "call \<Rightarrow> bool" where
  "isMutation c = (isCallTo deal_add c \<or> isCallTo deal_update c \<or> isCallTo productrows_set c)"

text \<open>The answer of \<^verbatim>\<open>/crm.deal.list.json\<close> locates the deal \<open>deal\<close>; it locates none.\<close>

definition dealFound :: "json \<Rightarrow> json \<Rightarrow> bool" where
  "dealFound listResp deal = (\<not> nullish listResp \<and> firstResult listResp = deal \<and> truthy deal)"

definition noDealFound :: "json \<Rightarrow> bool" where
  "noDealFound listResp = (\<not> nullish listResp \<and> \<not> truthy (firstResult listResp))"

text \<open>The answer of \<^verbatim>\<open>/crm.deal.add.json\<close> carries a result identifier.\<close>

definition hasResult :: "json \<Rightarrow> bool" where
  "hasResult resp = (\<not> nullish resp \<and> truthy (getProp resp ''result''))"

text \<open>The identifier and the name of the body can be printed (they are strings or
  numbers, say): the log lines 326 and 327 do not throw.\<close>

definition printableLabels :: "json \<Rightarrow> bool" where
  "printableLabels order = (\<not> unprintable (orderIdOf order) \<and> \<not> unprintable (orderNameOf order))"

text \<open>The identifier and the category of the deal can be printed.\<close>

definition printableDeal :: "json \<Rightarrow> bool" where
  "printableDeal deal =
     (\<not> unprintable (getProp deal ''ID'') \<and> \<not> unprintable (getProp deal ''CATEGORY_ID''))"

text \<open>The category that a deal with the category number \<open>n\<close> is taken to be in (lines 107
  and 232): the category 2 when the number is zero or not a number.\<close>

definition categoryOr2 :: "jsnum \<Rightarrow> json" where
  "categoryOr2 n = (if n = NaN \<or> n = Fin 0 then JNum (Fin 2) else JNum n)"

section \<open>Tags, as the specification words them\<close>

text \<open>Two strings are equal up to the case of their letters: they have the same length,
  and at every position the two characters have the same lower-case form.\<close>

definition equalsIgnoringCase :: "string \<Rightarrow> string \<Rightarrow> bool" where
  "equalsIgnoringCase a b = list_all2 (\<lambda>x y. lowerChar x = lowerChar y) a b"

text \<open>A tag that equals a configured preorder tag, up to case.\<close>

definition isPreorderTag :: "string \<Rightarrow> bool" where
  "isPreorderTag t = (\<exists>p\<in>set preorderTags. equalsIgnoringCase t p)"

text \<open>A string that is made of pieces of a given list, and nothing else.\<close>

inductive madeOf :: "string list \<Rightarrow> string \<Rightarrow> bool" for ws :: "string list" where
  madeOf_Nil: "madeOf ws []"
| madeOf_Cons: "w \<in> set ws \<Longrightarrow> madeOf ws s \<Longrightarrow> madeOf ws (w @ s)"

text \<open>A string of white space only.\<close>

definition blank :: "string \<Rightarrow> bool" where
  "blank s = madeOf whiteSpace s"

text \<open>A piece of a delimited string that holds a preorder tag: the tag, with nothing but
  white space around it.\<close>

definition holdsPreorderTag :: "string \<Rightarrow> bool" where
  "holdsPreorderTag piece =
     (\<exists>l t r. piece = l @ t @ r \<and> blank l \<and> blank r \<and> isPreorderTag t)"

section \<open>Example collaborators and events\<close>

text \<open>A small CRM: the default pipeline 0, a stock pipeline 2 and a preorder pipeline 8,
  each with its own stages; one deal for the order 1001; and the numerals the examples
  use.\<close>

definition exStringToNumber :: "string \<Rightarrow> jsnum" where
  "exStringToNumber s =
     (case map_of [(''0'', Fin 0), (''2'', Fin 2), (''8'', Fin 8), (''0.00'', Fin 0),
                   (''5.00'', Fin 5), (''7.50'', Fin (15 / 2)), (''40.00'', Fin 40),
                   (''100.00'', Fin 100)] s of
        Some n \<Rightarrow> n
      | None \<Rightarrow> NaN)"

definition exStage :: "json \<Rightarrow> json \<Rightarrow> json" where
  "exStage financialStatus categoryId =
     (if strict_eq categoryId (JNum (Fin 8))
      then (if strict_eq financialStatus (JStr ''refunded'') then JStr ''C8:LOSE'' else JStr ''C8:NEW'')
      else if strict_eq categoryId (JNum (Fin 2))
      then (if strict_eq financialStatus (JStr ''refunded'') then JStr ''C2:LOSE'' else JStr ''C2:NEW'')
      else (if strict_eq financialStatus (JStr ''refunded'') then JStr ''LOSE'' else JStr ''NEW''))"

definition exPayment :: "json \<Rightarrow> json" where
  "exPayment financialStatus =
     (if strict_eq financialStatus (JStr ''paid'') then JStr ''56'' else JStr ''58'')"

definition exMapper :: "json \<Rightarrow> mapped" where
  "exMapper order =
     \<lparr>dealFields = [(''TITLE'', getProp order ''name''),
                    (''OPPORTUNITY'', jor (getProp order ''current_total_price'')
                                          (getProp order ''total_price''))],
      productRows = (case getProp order ''line_items'' of JArr items \<Rightarrow> items | _ \<Rightarrow> [])\<rparr>"

text \<open>The deal of the order 1001, in the pipeline with the given number.\<close>

definition exDealIn :: "string \<Rightarrow> json" where
  "exDealIn category =
     JObj [(''ID'', JStr ''501''), (''OPPORTUNITY'', JStr ''100.00''),
           (''STAGE_ID'', JStr ''C2:NEW''), (''CATEGORY_ID'', JStr category)]"

definition exDeal :: json where
  "exDeal = exDealIn ''2''"

definition exListRespOf :: "json \<Rightarrow> json" where
  "exListRespOf deal = JObj [(''result'', JArr [deal])]"

definition exListResp :: json where
  "exListResp = exListRespOf exDeal"

text \<open>A CRM that holds one deal.\<close>

definition exCrm :: "json \<Rightarrow> string \<Rightarrow> json \<Rightarrow> exn + json" where
  "exCrm deal endpoint params =
     (if endpoint = deal_list then Inr (exListRespOf deal)
      else if endpoint = deal_add then Inr (JObj [(''result'', JStr ''501'')])
      else Inr (JObj [(''result'', JBool True)]))"

definition exBitrix :: "string \<Rightarrow> json \<Rightarrow> exn + json" where
  "exBitrix = exCrm exDeal"

definition exRows :: "json list" where
  "exRows = [JObj [(''PRODUCT_ID'', JStr ''1''), (''QUANTITY'', JNum (Fin 1))],
             JObj [(''PRODUCT_ID'', JStr ''2''), (''QUANTITY'', JNum (Fin 3))]]"

definition exOrder :: json where
  "exOrder = JObj [(''id'', JStr ''1001''), (''name'', JStr ''#1001''),
                   (''total_price'', JStr ''100.00''), (''current_total_price'', JStr ''100.00''),
                   (''financial_status'', JStr ''pending''), (''tags'', JStr []),
                   (''line_items'', JArr exRows)]"

definition exEnv :: env where
  "exEnv = \<lparr>NumberToString = (\<lambda>n. ''0''), StringToNumber = exStringToNumber,
            JSON_stringify = (\<lambda>v. ''{}''),
            CATEGORY_PREORDER = JNum (Fin 8), CATEGORY_STOCK = JNum (Fin 2),
            financialStatusToStageId = exStage, financialStatusToPaymentStatus = exPayment,
            mapShopifyOrderToBitrixDeal = exMapper,
            getBitrixWebhookBase = Inr (JStr ''https://crm.example/rest''),
            upsertBitrixContact = (\<lambda>base order. Inr (JStr ''77'')),
            callBitrix = exBitrix,
            getOrder = (\<lambda>orderId. Inr exOrder),
            storeEvent = (\<lambda>event. Inr JUndefined)\<rparr>"

text \<open>A request with the topic header and a body.\<close>

definition exRequest :: "string \<Rightarrow> string \<Rightarrow> json \<Rightarrow> request" where
  "exRequest m topic b =
     \<lparr>req_method = m, req_headers = [(''x-shopify-topic'', topic)], req_body = b\<rparr>"

text \<open>A refund of the order 1001.\<close>

definition exRefund :: "string \<Rightarrow> json" where
  "exRefund amount =
     JObj [(''id'', JStr ''9001''), (''order_id'', JStr ''1001''), (''amount'', JStr amount)]"

text \<open>A CRM whose create call answers with an error object and no result; one that knows
  no deal; one whose update call fails.\<close>

definition exBitrixNoResult :: "string \<Rightarrow> json \<Rightarrow> exn + json" where
  "exBitrixNoResult endpoint params =
     (if endpoint = deal_add then Inr (JObj [(''error'', JStr ''ACCESS_DENIED'')])
      else exBitrix endpoint params)"

definition exBitrixNoDeal :: "string \<Rightarrow> json \<Rightarrow> exn + json" where
  "exBitrixNoDeal endpoint params =
     (if endpoint = deal_list then Inr (JObj [(''result'', JArr [])]) else exBitrix endpoint params)"

definition exBitrixUpdateFails :: "string \<Rightarrow> json \<Rightarrow> exn + json" where
  "exBitrixUpdateFails endpoint params =
     (if endpoint = deal_update then Inl (Error ''fetch failed'') else exBitrix endpoint params)"

text \<open>An order without line items and without tags; the order 1001 with a discount and a
  tax; an order that carries a shipping total but no shipping line; the order 1001 after
  all its items were refunded.\<close>

definition exOrderBare :: json where
  "exOrderBare = JObj [(''id'', JStr ''1001''), (''total_price'', JStr ''100.00''),
                       (''financial_status'', JStr ''pending'')]"

definition exOrderTaxed :: json where
  "exOrderTaxed =
     JObj [(''id'', JStr ''1001''), (''name'', JStr ''#1001''),
           (''total_price'', JStr ''100.00''), (''current_total_price'', JStr ''100.00''),
           (''financial_status'', JStr ''pending''),
           (''current_total_discounts'', JStr ''5.00''), (''current_total_tax'', JStr ''7.50'')]"

definition exOrderShipping :: json where
  "exOrderShipping =
     JObj [(''id'', JStr ''1001''), (''total_price'', JStr ''100.00''),
           (''financial_status'', JStr ''pending''),
           (''current_total_shipping_price_set'',
              JObj [(''shop_money'', JObj [(''amount'', JStr ''5.00'')])]),
           (''shipping_lines'', JArr [])]"

definition exOrderNoItems :: json where
  "exOrderNoItems =
     JObj [(''id'', JStr ''1001''), (''name'', JStr ''#1001''),
           (''total_price'', JStr ''100.00''), (''current_total_price'', JStr ''0.00''),
           (''financial_status'', JStr ''refunded''), (''line_items'', JArr [])]"



text \<open>An order with a shipping line, and a shipping total that differs from the price of
  that line.\<close>

definition exOrderShipLine :: json where
  "exOrderShipLine =
     JObj [(''id'', JStr ''1001''), (''total_price'', JStr ''100.00''),
           (''financial_status'', JStr ''pending''),
           (''total_shipping_price_set'',
              JObj [(''shop_money'', JObj [(''amount'', JStr ''5.00'')])]),
           (''shipping_lines'', JArr [JObj [(''price'', JStr ''7.50'')]])]"
section \<open>Properties\<close>

subsection \<open>Auxiliary facts\<close>

lemmas run_defs = callBitrixM_def andThen_def tryCatch_def ret_def throw_def await_def lift_def
  bindE_def Let_def

lemmas handler_defs = handler_def dispatch_def topicOf_def header_def jor_def orderIdOf_def
  orderNameOf_def handleOrderCreated_def withContact_def handleOrderUpdated_def
  handleRefundCreated_def firstResult_def orderCategory_def orderTags_def currentCategory_def
  updateFields_def refundFields_def firstShippingLinePrice_def shopMoneyAmount_def
  shippingSource_def shippingPrice_def orderAmount_def optProp_def updateParams_def
  rowsParams_def listParams_def Object_keys_def ToString_def ToNumber_def

lemmas ex_defs = exRequest_def exEnv_def exBitrix_def exCrm_def exListRespOf_def exListResp_def
  exOrder_def exDeal_def exDealIn_def exMapper_def exStage_def exPayment_def
  exStringToNumber_def exRows_def

lemma lookup_setField: "lookup (setField k v kvs) k' = (if k' = k then v else lookup kvs k')"
  by (induction kvs) auto

lemma keys_setField: "set (Object_keys (setField k v kvs)) = insert k (set (Object_keys kvs))"
proof (induction kvs)
  case Nil
  show ?case by (simp add: Object_keys_def)
next
  case (Cons kv kvs)
  obtain k' v' where kv: "kv = (k', v')" by (cases kv)
  from Cons show ?case
    unfolding kv Object_keys_def by (cases "k' = k") auto
qed

lemma keys_Nil: "set (Object_keys []) = {}"
  by (simp add: Object_keys_def)

lemma key_of_guarded_setField:
  "(x \<in> set (Object_keys (if c then setField k v fs else fs))) =
     (c \<and> x = k \<or> x \<in> set (Object_keys fs))"
  by (auto simp: keys_setField)

lemma lookup_guarded_setField:
  "lookup (if c then setField k v fs else fs) x = (if c \<and> x = k then v else lookup fs x)"
  by (simp add: lookup_setField)

lemma strict_eq_undefined: "strict_eq v JUndefined = (v = JUndefined)"
  by (cases v) auto

lemma num_gt_not_le: "num_gt a (Fin 0) \<Longrightarrow> \<not> num_le a (Fin 0)"
  by (cases a) auto

text \<open>Conversions: they throw on the values that cannot be printed, and on no other.\<close>

lemma ToString_Inr: "(ToString E v = Inr s) = (\<not> unprintable v \<and> s = stringOf E v)"
  by (auto simp: ToString_def)

lemma ToNumber_Inr: "(ToNumber E v = Inr n) = (\<not> unprintable v \<and> n = numberOf E v)"
  by (auto simp: ToNumber_def)

lemma template_printable: "(\<forall>v\<in>set vs. \<not> unprintable v) \<Longrightarrow> template E vs = Inr ()"
  by (induction vs) (auto simp: ToString_def)

lemma template_unprintable: "(\<exists>v\<in>set vs. unprintable v) \<Longrightarrow> template E vs = Inl TypeError"
  by (induction vs) (auto simp: ToString_def)

lemma unprintable_truthy: "unprintable v \<Longrightarrow> truthy v"
  by (cases v) auto

text \<open>What line 22 and line 90 print has been printed by line 326 or 327, or is a falsy
  value; falsy values can be printed.\<close>

lemma label_printable:
  assumes "printableLabels order" and "\<not> nullish order"
  shows "\<not> unprintable (jor (getProp order ''name'') (getProp order ''id''))"
proof (cases "truthy (getProp order ''name'')")
  case True
  with assms show ?thesis
    by (simp add: printableLabels_def orderNameOf_def optProp_def jor_def)
next
  case False
  show ?thesis
  proof (cases "truthy (getProp order ''id'')")
    case True
    with assms \<open>\<not> truthy (getProp order ''name'')\<close> show ?thesis
      by (simp add: printableLabels_def orderIdOf_def optProp_def jor_def)
  next
    case False
    with \<open>\<not> truthy (getProp order ''name'')\<close> unprintable_truthy show ?thesis
      by (auto simp: jor_def)
  qed
qed

text \<open>A POST request whose labels can be printed stores the event, then runs the handler
  of its topic; the reply is 200 when that handler returns and 500 when it throws. When a
  label cannot be printed, the handler throws before it calls anything.\<close>

lemma handler_post:
  assumes "req_method req = ''POST''" and "printableLabels (req_body req)"
  shows "snd (handler E rid req) = StoreEvent (req_body req) # snd (dispatch E (topicOf req) (req_body req))"
    and "status (fst (handler E rid req)) =
           (case fst (dispatch E (topicOf req) (req_body req)) of
              Inl _ \<Rightarrow> Some 500 | Inr _ \<Rightarrow> Some 200)"
  using assms
  by (auto simp: handler_def printableLabels_def ToString_def bindE_def andThen_def tryCatch_def
        ret_def await_def Let_def
      split: sum.splits prod.splits)

lemma handler_rejects:
  assumes "req_method req = ''POST''" and "\<not> printableLabels (req_body req)"
  shows "snd (handler E rid req) = []"
  using assms
  by (auto simp: handler_def printableLabels_def ToString_def bindE_def Let_def
      split: sum.splits)

text \<open>The contact upsert never throws, and calls nothing but the upsert.\<close>

lemma withContact_run:
  "\<exists>fs t. withContact E order fields' = (Inr fs, t) \<and> (\<forall>c\<in>set t. \<exists>b. c = UpsertContact b order)"
  by (auto simp: withContact_def andThen_def tryCatch_def ret_def throw_def await_def
      split: sum.splits prod.splits)

text \<open>The example requests and the example deals.\<close>

lemma exRequest_simps:
  "req_method (exRequest m t b) = m"
  "req_body (exRequest m t b) = b"
  "t \<noteq> [] \<Longrightarrow> topicOf (exRequest m t b) = JStr t"
  by (simp_all add: exRequest_def topicOf_def header_def jor_def)

lemma exDeal_found:
  "dealFound (exListRespOf (exDealIn c)) (exDealIn c)"
  "getProp (exDealIn c) ''ID'' = JStr ''501''"
  "printableDeal (exDealIn c)"
  by (simp_all add: dealFound_def firstResult_def exListRespOf_def exDealIn_def printableDeal_def)

subsection \<open>Requests that are not POST\<close>

text \<open>
  C10. A request whose method is not POST is answered with status 405, and the run makes
  no call at all: no event is stored, and neither the CRM nor the storefront is called.
\<close>

theorem non_post_rejected:
  assumes "req_method req \<noteq> ''POST''"
  shows "status (fst (handler E rid req)) = Some 405 \<and> snd (handler E rid req) = []"
  using assms by (simp add: handler_def)

theorem non_post_rejected_witness:
  "status (fst (handler exEnv ''r1'' (exRequest ''GET'' ''orders/create'' exOrder))) = Some 405 \<and>
   snd (handler exEnv ''r1'' (exRequest ''GET'' ''orders/create'' exOrder)) = []"
proof -
  have "req_method (exRequest ''GET'' ''orders/create'' exOrder) \<noteq> ''POST''"
    by (simp add: exRequest_simps)
  then show ?thesis
    by (rule non_post_rejected)
qed

subsection \<open>Order created: a create call without result\<close>

text \<open>
  C2. In an \<^verbatim>\<open>orders/create\<close> event whose create-deal call is answered by a response
  without a result identifier, the handler aborts: the reply has status 500, and the run
  has no set-product-rows call.
\<close>

theorem create_without_result_fails:
  assumes "req_method req = ''POST''"
    and "topicOf req = JStr ''orders/create''"
    and "CallBitrix deal_add params \<in> set (snd (handler E rid req))"
    and "callBitrix E deal_add params = Inr resp"
    and "\<not> hasResult resp"
  shows "status (fst (handler E rid req)) = Some 500 \<and>
         callsTo productrows_set (snd (handler E rid req)) = []"
proof -
  let ?order = "req_body req"
  let ?m = "mapShopifyOrderToBitrixDeal E ?order"
  obtain fs t where wc: "withContact E ?order (dealFields ?m) = (Inr fs, t)"
    and t: "\<forall>c\<in>set t. \<exists>b. c = UpsertContact b ?order"
    using withContact_run by blast
  have labels: "printableLabels ?order"
  proof (rule ccontr)
    assume "\<not> printableLabels ?order"
    then have "snd (handler E rid req) = []"
      by (rule handler_rejects[OF assms(1)])
    with assms(3) show False by simp
  qed
  have run: "snd (handler E rid req) = StoreEvent ?order # snd (handleOrderCreated E ?order)"
    and st: "status (fst (handler E rid req)) =
               (case fst (handleOrderCreated E ?order) of Inl _ \<Rightarrow> Some 500 | Inr _ \<Rightarrow> Some 200)"
    using handler_post[OF assms(1) labels] assms(2) by (simp_all add: dispatch_def)
  show ?thesis
  proof (cases "nullish ?order")
    case True
    with assms(3) run show ?thesis by (simp add: handleOrderCreated_def throw_def)
  next
    case False
    note tl = template_printable[of "[jor (getProp ?order ''name'') (getProp ?order ''id'')]" E]
    have lab: "template E [jor (getProp ?order ''name'') (getProp ?order ''id'')] = Inr ()"
      using label_printable[OF labels False] by (intro tl) simp
    have "params = JObj [(''fields'', JObj fs)]"
      using assms(3) run False wc t lab
      by (auto simp: handleOrderCreated_def callBitrixM_def andThen_def tryCatch_def ret_def
            throw_def await_def lift_def Let_def
          split: sum.splits prod.splits if_splits)
    with assms(4,5) False wc t lab show ?thesis
      unfolding run st
      by (auto simp: handleOrderCreated_def callBitrixM_def andThen_def tryCatch_def ret_def
            throw_def await_def lift_def Let_def hasResult_def callsTo_def isCallTo_def
            filter_empty_conv
          split: sum.splits prod.splits if_splits)
  qed
qed

theorem create_without_result_fails_witness:
  "status (fst (handler (exEnv\<lparr>callBitrix := exBitrixNoResult\<rparr>) ''r1''
                  (exRequest ''POST'' ''orders/create'' exOrder))) = Some 500 \<and>
   callsTo productrows_set
     (snd (handler (exEnv\<lparr>callBitrix := exBitrixNoResult\<rparr>) ''r1''
             (exRequest ''POST'' ''orders/create'' exOrder))) = []"
proof -
  let ?E = "exEnv\<lparr>callBitrix := exBitrixNoResult\<rparr>"
  let ?req = "exRequest ''POST'' ''orders/create'' exOrder"
  let ?params = "JObj [(''fields'', JObj [(''TITLE'', JStr ''#1001''),
                    (''OPPORTUNITY'', JStr ''100.00''), (''CONTACT_ID'', JStr ''77'')])]"
  let ?resp = "JObj [(''error'', JStr ''ACCESS_DENIED'')]"
  have 1: "req_method ?req = ''POST''"
    by (simp add: exRequest_simps)
  have 2: "topicOf ?req = JStr ''orders/create''"
    by (simp add: exRequest_simps)
  have 3: "CallBitrix deal_add ?params \<in> set (snd (handler ?E ''r1'' ?req))"
    by (simp add: handler_defs ex_defs exBitrixNoResult_def run_defs)
  have 4: "callBitrix ?E deal_add ?params = Inr ?resp"
    by (simp add: exBitrixNoResult_def)
  have 5: "\<not> hasResult ?resp"
    by (simp add: hasResult_def)
  show ?thesis
    by (rule create_without_result_fails [OF 1 2 3 4 5])
qed

subsection \<open>Order updated and refund created: no deal for the order\<close>

lemma handle_not_found:
  assumes "\<not> nullish order"
    and "callBitrix E deal_list (listParams oid) = Inr listResp"
    and "noDealFound listResp"
  shows "printableLabels order \<Longrightarrow> ToString E (getProp order ''id'') = Inr oid \<Longrightarrow>
           handleOrderUpdated E order = (Inr JUndefined, [CallBitrix deal_list (listParams oid)])"
    and "ToString E (getProp order ''order_id'') = Inr oid \<Longrightarrow>
           handleRefundCreated E order = (Inr JUndefined, [CallBitrix deal_list (listParams oid)])"
proof -
  assume p: "printableLabels order" and i: "ToString E (getProp order ''id'') = Inr oid"
  have "template E [jor (getProp order ''name'') (getProp order ''id'')] = Inr ()"
    using label_printable[OF p assms(1)] by (intro template_printable) simp
  with assms i
  show "handleOrderUpdated E order = (Inr JUndefined, [CallBitrix deal_list (listParams oid)])"
    by (simp add: handleOrderUpdated_def noDealFound_def callBitrixM_def andThen_def ret_def
          await_def lift_def Let_def)
next
  assume "ToString E (getProp order ''order_id'') = Inr oid"
  with assms
  show "handleRefundCreated E order = (Inr JUndefined, [CallBitrix deal_list (listParams oid)])"
    by (simp add: handleRefundCreated_def noDealFound_def callBitrixM_def andThen_def ret_def
          await_def lift_def Let_def)
qed

text \<open>
  C4. In an \<^verbatim>\<open>orders/updated\<close> or \<^verbatim>\<open>refunds/create\<close> event whose order identifier
  (\<^verbatim>\<open>id\<close> of the order, \<^verbatim>\<open>order_id\<close> of the refund) matches no deal, the run has no
  call that changes the CRM (no create, no update-deal, no set-product-rows), and the
  reply has status 200. The event is one whose identifier and name can be printed, as the
  strings and numbers of the storefront can.
\<close>

theorem no_deal_no_mutation:
  assumes "req_method req = ''POST''"
    and "\<not> nullish (req_body req)"
    and "printableLabels (req_body req)"
    and "topicOf req = JStr ''orders/updated'' \<and> ToString E (getProp (req_body req) ''id'') = Inr oid \<or>
         topicOf req = JStr ''refunds/create'' \<and> ToString E (getProp (req_body req) ''order_id'') = Inr oid"
    and "callBitrix E deal_list (listParams oid) = Inr listResp"
    and "noDealFound listResp"
  shows "status (fst (handler E rid req)) = Some 200 \<and>
         filter isMutation (snd (handler E rid req)) = []"
  using assms(4)
proof
  assume a: "topicOf req = JStr ''orders/updated'' \<and> ToString E (getProp (req_body req) ''id'') = Inr oid"
  show ?thesis
    using handler_post[OF assms(1,3), of E rid] a handle_not_found(1)[OF assms(2,5,6) assms(3)]
    by (simp add: dispatch_def isMutation_def isCallTo_def)
next
  assume a: "topicOf req = JStr ''refunds/create'' \<and> ToString E (getProp (req_body req) ''order_id'') = Inr oid"
  show ?thesis
    using handler_post[OF assms(1,3), of E rid] a handle_not_found(2)[OF assms(2,5,6)]
    by (simp add: dispatch_def isMutation_def isCallTo_def)
qed

theorem no_deal_no_mutation_witness:
  "status (fst (handler (exEnv\<lparr>callBitrix := exBitrixNoDeal\<rparr>) ''r1''
                  (exRequest ''POST'' ''orders/updated'' exOrder))) = Some 200 \<and>
   filter isMutation (snd (handler (exEnv\<lparr>callBitrix := exBitrixNoDeal\<rparr>) ''r1''
                  (exRequest ''POST'' ''orders/updated'' exOrder))) = [] \<and>
   status (fst (handler (exEnv\<lparr>callBitrix := exBitrixNoDeal\<rparr>) ''r1''
                  (exRequest ''POST'' ''refunds/create'' (exRefund ''40.00'')))) = Some 200 \<and>
   filter isMutation (snd (handler (exEnv\<lparr>callBitrix := exBitrixNoDeal\<rparr>) ''r1''
                  (exRequest ''POST'' ''refunds/create'' (exRefund ''40.00'')))) = []"
proof -
  let ?E = "exEnv\<lparr>callBitrix := exBitrixNoDeal\<rparr>"
  let ?u = "exRequest ''POST'' ''orders/updated'' exOrder"
  let ?r = "exRequest ''POST'' ''refunds/create'' (exRefund ''40.00'')"
  have m: "req_method ?u = ''POST''" "req_method ?r = ''POST''"
    by (simp_all add: exRequest_simps)
  have n: "\<not> nullish (req_body ?u)" "\<not> nullish (req_body ?r)"
    by (simp_all add: exRequest_simps exOrder_def exRefund_def)
  have p: "printableLabels (req_body ?u)" "printableLabels (req_body ?r)"
    by (simp_all add: exRequest_simps exOrder_def exRefund_def printableLabels_def orderIdOf_def
          orderNameOf_def optProp_def jor_def)
  have l: "callBitrix ?E deal_list (listParams ''1001'') = Inr (JObj [(''result'', JArr [])])"
    by (simp add: exBitrixNoDeal_def)
  have d: "noDealFound (JObj [(''result'', JArr [])])"
    by (simp add: noDealFound_def firstResult_def)
  have u: "topicOf ?u = JStr ''orders/updated'' \<and>
             ToString ?E (getProp (req_body ?u) ''id'') = Inr ''1001'' \<or>
           topicOf ?u = JStr ''refunds/create'' \<and>
             ToString ?E (getProp (req_body ?u) ''order_id'') = Inr ''1001''"
    by (simp add: exRequest_simps exOrder_def ToString_def)
  have r: "topicOf ?r = JStr ''orders/updated'' \<and>
             ToString ?E (getProp (req_body ?r) ''id'') = Inr ''1001'' \<or>
           topicOf ?r = JStr ''refunds/create'' \<and>
             ToString ?E (getProp (req_body ?r) ''order_id'') = Inr ''1001''"
    by (simp add: exRequest_simps exRefund_def ToString_def)
  show ?thesis
    using no_deal_no_mutation [OF m(1) n(1) p(1) u l d, of "''r1''"]
          no_deal_no_mutation [OF m(2) n(2) p(2) r l d, of "''r1''"]
    by simp
qed

subsection \<open>Order updated: the fields of the update\<close>

lemma bindE_Inr: "(bindE m f = Inr y) = (\<exists>x. m = Inr x \<and> f x = Inr y)"
  by (cases m) (auto simp: bindE_def)

lemma guarded_number_Inr:
  assumes "(if P then bindE (ToNumber E v) (\<lambda>n. Inr (setField k (JNum n) f)) else Inr f) = Inr f'"
  shows "f' = (if P then setField k (JNum (numberOf E v)) f else f)"
  using assms by (auto simp: bindE_def ToNumber_def split: if_splits)

lemma guard_apply: "(if c then f else id) x = (if c then f x else x)"
  by simp

text \<open>When the computation of the fields returns, the fields are these.\<close>

lemma updateFields_Inr:
  assumes "updateFields E order deal categoryId currentCategoryId = Inr fs"
  shows "fs =
    (if \<not> strict_eq (firstShippingLinePrice order) JUndefined
     then setField ''UF_SHOPIFY_SHIPPING_PRICE'' (JNum (numberOf E (shippingSource order)))
     else id)
    ((if \<not> strict_eq (getProp order ''current_total_tax'') JUndefined
      then setField ''UF_SHOPIFY_TOTAL_TAX'' (JNum (numberOf E (getProp order ''current_total_tax'')))
      else id)
    ((if \<not> strict_eq (getProp order ''current_total_discounts'') JUndefined
      then setField ''UF_SHOPIFY_TOTAL_DISCOUNT''
             (JNum (numberOf E (getProp order ''current_total_discounts'')))
      else id)
    (setField UF_PAYMENT (financialStatusToPaymentStatus E (getProp order ''financial_status''))
    ((if \<not> strict_eq (financialStatusToStageId E (getProp order ''financial_status'') categoryId)
               (getProp deal ''STAGE_ID'')
      then setField ''STAGE_ID''
             (financialStatusToStageId E (getProp order ''financial_status'') categoryId)
      else id)
    ((if \<not> num_eq (numberOf E (orderAmount order)) (numberOf E (getProp deal ''OPPORTUNITY''))
      then setField ''OPPORTUNITY'' (JNum (numberOf E (orderAmount order)))
      else id)
    (if \<not> strict_eq categoryId currentCategoryId
     then setField ''CATEGORY_ID'' categoryId [] else []))))))"
proof -
  from assms obtain newAmount dealAmount f5 f6 where
    a: "ToNumber E (orderAmount order) = Inr newAmount"
    and d: "ToNumber E (getProp deal ''OPPORTUNITY'') = Inr dealAmount"
    and f5: "(if \<not> strict_eq (getProp order ''current_total_discounts'') JUndefined
            then bindE (ToNumber E (getProp order ''current_total_discounts''))
                   (\<lambda>n. Inr (setField ''UF_SHOPIFY_TOTAL_DISCOUNT'' (JNum n)
                     (setField UF_PAYMENT (financialStatusToPaymentStatus E (getProp order ''financial_status''))
                       (if \<not> strict_eq (financialStatusToStageId E (getProp order ''financial_status'') categoryId)
                               (getProp deal ''STAGE_ID'')
                        then setField ''STAGE_ID''
                               (financialStatusToStageId E (getProp order ''financial_status'') categoryId)
                               (if \<not> num_eq newAmount dealAmount
                                then setField ''OPPORTUNITY'' (JNum newAmount)
                                       (if \<not> strict_eq categoryId currentCategoryId
                                        then setField ''CATEGORY_ID'' categoryId [] else [])
                                else (if \<not> strict_eq categoryId currentCategoryId
                                      then setField ''CATEGORY_ID'' categoryId [] else []))
                        else (if \<not> num_eq newAmount dealAmount
                              then setField ''OPPORTUNITY'' (JNum newAmount)
                                     (if \<not> strict_eq categoryId currentCategoryId
                                      then setField ''CATEGORY_ID'' categoryId [] else [])
                              else (if \<not> strict_eq categoryId currentCategoryId
                                    then setField ''CATEGORY_ID'' categoryId [] else []))))))
            else Inr (setField UF_PAYMENT (financialStatusToPaymentStatus E (getProp order ''financial_status''))
                       (if \<not> strict_eq (financialStatusToStageId E (getProp order ''financial_status'') categoryId)
                               (getProp deal ''STAGE_ID'')
                        then setField ''STAGE_ID''
                               (financialStatusToStageId E (getProp order ''financial_status'') categoryId)
                               (if \<not> num_eq newAmount dealAmount
                                then setField ''OPPORTUNITY'' (JNum newAmount)
                                       (if \<not> strict_eq categoryId currentCategoryId
                                        then setField ''CATEGORY_ID'' categoryId [] else [])
                                else (if \<not> strict_eq categoryId currentCategoryId
                                      then setField ''CATEGORY_ID'' categoryId [] else []))
                        else (if \<not> num_eq newAmount dealAmount
                              then setField ''OPPORTUNITY'' (JNum newAmount)
                                     (if \<not> strict_eq categoryId currentCategoryId
                                      then setField ''CATEGORY_ID'' categoryId [] else [])
                              else (if \<not> strict_eq categoryId currentCategoryId
                                    then setField ''CATEGORY_ID'' categoryId [] else []))))) = Inr f5"
    and f6: "(if \<not> strict_eq (getProp order ''current_total_tax'') JUndefined
            then bindE (ToNumber E (getProp order ''current_total_tax''))
                   (\<lambda>n. Inr (setField ''UF_SHOPIFY_TOTAL_TAX'' (JNum n) f5))
            else Inr f5) = Inr f6"
    and fs: "(if \<not> strict_eq (firstShippingLinePrice order) JUndefined
            then bindE (ToNumber E (shippingSource order))
                   (\<lambda>n. Inr (setField ''UF_SHOPIFY_SHIPPING_PRICE'' (JNum n) f6))
            else Inr f6) = Inr fs"
    unfolding updateFields_def Let_def shippingPrice_def bindE_Inr by blast
  from a d have n: "newAmount = numberOf E (orderAmount order)"
    "dealAmount = numberOf E (getProp deal ''OPPORTUNITY'')"
    by (simp_all add: ToNumber_Inr)
  show ?thesis
    unfolding guarded_number_Inr[OF fs] guarded_number_Inr[OF f6] guarded_number_Inr[OF f5] n
    by (simp add: guard_apply split del: if_split cong: if_cong)
qed

lemma key_of_guard:
  "(x \<in> set (Object_keys ((if c then setField k v else id) fs))) =
     (c \<and> x = k \<or> x \<in> set (Object_keys fs))"
  by (auto simp: keys_setField)

lemma lookup_guard:
  "lookup ((if c then setField k v else id) fs) x = (if c \<and> x = k then v else lookup fs x)"
  by (simp add: lookup_setField)

lemma key_of_guarded_single:
  "(x \<in> set (Object_keys (if c then [(k, v)] else []))) = (c \<and> x = k)"
  by (cases c) (auto simp: Object_keys_def)

lemma lookup_guarded_single:
  "lookup (if c then [(k, v)] else []) x = (if c \<and> x = k then v else JUndefined)"
  by simp

lemma updateFields_keys:
  assumes "updateFields E order deal categoryId currentCategoryId = Inr fs"
  shows "UF_PAYMENT \<in> set (Object_keys fs)"
    and "(''CATEGORY_ID'' \<in> set (Object_keys fs)) = (\<not> strict_eq categoryId currentCategoryId)"
    and "(''OPPORTUNITY'' \<in> set (Object_keys fs)) =
           (\<not> num_eq (numberOf E (orderAmount order)) (numberOf E (getProp deal ''OPPORTUNITY'')))"
    and "(''STAGE_ID'' \<in> set (Object_keys fs)) =
           (\<not> strict_eq (financialStatusToStageId E (getProp order ''financial_status'') categoryId)
                (getProp deal ''STAGE_ID''))"
    and "(''UF_SHOPIFY_TOTAL_DISCOUNT'' \<in> set (Object_keys fs)) =
           (getProp order ''current_total_discounts'' \<noteq> JUndefined)"
    and "(''UF_SHOPIFY_TOTAL_TAX'' \<in> set (Object_keys fs)) =
           (getProp order ''current_total_tax'' \<noteq> JUndefined)"
    and "(''UF_SHOPIFY_SHIPPING_PRICE'' \<in> set (Object_keys fs)) =
           (firstShippingLinePrice order \<noteq> JUndefined)"
  by (subst updateFields_Inr[OF assms],
      simp add: key_of_guard key_of_guarded_single keys_setField strict_eq_undefined
        split del: if_split cong: if_cong)+

lemma updateFields_lookup:
  assumes "updateFields E order deal categoryId currentCategoryId = Inr fs"
  shows "lookup fs UF_PAYMENT = financialStatusToPaymentStatus E (getProp order ''financial_status'')"
    and "lookup fs ''UF_SHOPIFY_TOTAL_DISCOUNT'' =
           (if getProp order ''current_total_discounts'' \<noteq> JUndefined
            then JNum (numberOf E (getProp order ''current_total_discounts'')) else JUndefined)"
    and "lookup fs ''UF_SHOPIFY_TOTAL_TAX'' =
           (if getProp order ''current_total_tax'' \<noteq> JUndefined
            then JNum (numberOf E (getProp order ''current_total_tax'')) else JUndefined)"
    and "lookup fs ''UF_SHOPIFY_SHIPPING_PRICE'' =
           (if firstShippingLinePrice order \<noteq> JUndefined
            then JNum (numberOf E (shippingSource order)) else JUndefined)"
  by (subst updateFields_Inr[OF assms],
      simp add: lookup_guard lookup_guarded_single lookup_setField strict_eq_undefined
        split del: if_split cong: if_cong)+

text \<open>The current category of a deal whose category number is \<open>n\<close>.\<close>

lemma currentCategory_Inr:
  assumes "ToNumber E (getProp deal ''CATEGORY_ID'') = Inr n"
  shows "currentCategory E deal = Inr (categoryOr2 n)"
  using assms by (cases n) (auto simp: currentCategory_def bindE_def categoryOr2_def jor_def)

lemma categoryOr2_printable: "\<not> unprintable (categoryOr2 n)"
  by (simp add: categoryOr2_def)

text \<open>The run of the handler when the deal is found and the fields are computed: the
  lookup, the update call and, when that call returns, one call that sets the product
  rows.\<close>

lemma handleOrderUpdated_found:
  assumes "\<not> nullish order"
    and "printableLabels order"
    and "ToString E (getProp order ''id'') = Inr oid"
    and "callBitrix E deal_list (listParams oid) = Inr listResp"
    and "dealFound listResp deal"
    and "\<not> unprintable (getProp deal ''ID'')"
    and "ToNumber E (getProp deal ''CATEGORY_ID'') = Inr n"
    and "orderCategory E order = Inr categoryId"
    and "updateFields E order deal categoryId (categoryOr2 n) = Inr diff"
  shows "handleOrderUpdated E order =
     (case callBitrix E deal_update (updateParams (getProp deal ''ID'') diff) of
        Inl e \<Rightarrow>
          (Inl e, [CallBitrix deal_list (listParams oid),
                   CallBitrix deal_update (updateParams (getProp deal ''ID'') diff)])
      | Inr _ \<Rightarrow>
          (Inr (getProp deal ''ID''),
           [CallBitrix deal_list (listParams oid),
            CallBitrix deal_update (updateParams (getProp deal ''ID'') diff),
            CallBitrix productrows_set
              (rowsParams (getProp deal ''ID'') (productRows (mapShopifyOrderToBitrixDeal E order)))]))"
proof -
  have 1: "template E [jor (getProp order ''name'') (getProp order ''id'')] = Inr ()"
    using label_printable[OF assms(2,1)] by (intro template_printable) simp
  have 2: "template E [getProp deal ''ID'', JStr oid, categoryOr2 n] = Inr ()"
    using assms(6) by (intro template_printable) (simp add: categoryOr2_printable)
  have "UF_PAYMENT \<in> set (Object_keys diff)"
    by (simp add: updateFields_keys[OF assms(9)])
  then have 3: "Object_keys diff \<noteq> []"
    by auto
  from assms(5) have 4: "\<not> nullish listResp" "firstResult listResp = deal" "truthy deal"
    by (simp_all add: dealFound_def)
  show ?thesis
    unfolding handleOrderUpdated_def
    by (simp add: assms(1,3,4,8,9) 1 2 3 4 currentCategory_Inr[OF assms(7)]
          callBitrixM_def andThen_def tryCatch_def ret_def await_def lift_def Let_def
        del: template.simps split: sum.splits)
qed

lemma handler_updated_found:
  assumes "req_method req = ''POST''"
    and "topicOf req = JStr ''orders/updated''"
    and "\<not> nullish (req_body req)"
    and "printableLabels (req_body req)"
    and "ToString E (getProp (req_body req) ''id'') = Inr oid"
    and "callBitrix E deal_list (listParams oid) = Inr listResp"
    and "dealFound listResp deal"
    and "\<not> unprintable (getProp deal ''ID'')"
    and "ToNumber E (getProp deal ''CATEGORY_ID'') = Inr n"
    and "orderCategory E (req_body req) = Inr categoryId"
    and "updateFields E (req_body req) deal categoryId (categoryOr2 n) = Inr diff"
  shows "snd (handler E rid req) =
     (case callBitrix E deal_update (updateParams (getProp deal ''ID'') diff) of
        Inl e \<Rightarrow>
          [StoreEvent (req_body req), CallBitrix deal_list (listParams oid),
           CallBitrix deal_update (updateParams (getProp deal ''ID'') diff)]
      | Inr _ \<Rightarrow>
          [StoreEvent (req_body req), CallBitrix deal_list (listParams oid),
           CallBitrix deal_update (updateParams (getProp deal ''ID'') diff),
           CallBitrix productrows_set
             (rowsParams (getProp deal ''ID'')
                (productRows (mapShopifyOrderToBitrixDeal E (req_body req))))])"
    and "status (fst (handler E rid req)) =
     (case callBitrix E deal_update (updateParams (getProp deal ''ID'') diff) of
        Inl e \<Rightarrow> Some 500 | Inr _ \<Rightarrow> Some 200)"
  using handler_post[OF assms(1,4), of E rid] handleOrderUpdated_found[OF assms(3-11)] assms(2)
  by (simp_all add: dispatch_def split: sum.splits)

subsection \<open>Order updated: the update call\<close>




subsection \<open>Order updated: the product rows\<close>

text \<open>
  C6, as the code has it. In an \<^verbatim>\<open>orders/updated\<close> event where the deal is found and the
  fields of the update are computed (nothing that the handler prints or converts to a
  number throws), the update-deal call decides. When it returns, the run has exactly one
  set-product-rows call, whatever the fields and whatever the outcome of that call; it
  carries the rows the mapper computes from the order, which is the explicit empty list
  when the order maps to no row; the reply has status 200. When the update-deal call
  throws, the handler ends there: the run has no set-product-rows call, and the reply has
  status 500.
\<close>

theorem product_rows_resynced:
  assumes "req_method req = ''POST''"
    and "topicOf req = JStr ''orders/updated''"
    and "\<not> nullish (req_body req)"
    and "printableLabels (req_body req)"
    and "ToString E (getProp (req_body req) ''id'') = Inr oid"
    and "callBitrix E deal_list (listParams oid) = Inr listResp"
    and "dealFound listResp deal"
    and "\<not> unprintable (getProp deal ''ID'')"
    and "ToNumber E (getProp deal ''CATEGORY_ID'') = Inr n"
    and "orderCategory E (req_body req) = Inr categoryId"
    and "updateFields E (req_body req) deal categoryId (categoryOr2 n) = Inr diff"
  shows "((\<exists>ack. callBitrix E deal_update (updateParams (getProp deal ''ID'') diff) = Inr ack) \<longrightarrow>
            status (fst (handler E rid req)) = Some 200 \<and>
            callsTo productrows_set (snd (handler E rid req)) =
              [CallBitrix productrows_set
                 (rowsParams (getProp deal ''ID'')
                    (productRows (mapShopifyOrderToBitrixDeal E (req_body req))))]) \<and>
         ((\<exists>e. callBitrix E deal_update (updateParams (getProp deal ''ID'') diff) = Inl e) \<longrightarrow>
            status (fst (handler E rid req)) = Some 500 \<and>
            callsTo productrows_set (snd (handler E rid req)) = [])"
  unfolding handler_updated_found[OF assms]
  by (auto simp: callsTo_def isCallTo_def)

theorem product_rows_resynced_witness:
  "status (fst (handler exEnv ''r1'' (exRequest ''POST'' ''orders/updated'' exOrder))) = Some 200 \<and>
   callsTo productrows_set
     (snd (handler exEnv ''r1'' (exRequest ''POST'' ''orders/updated'' exOrder))) =
     [CallBitrix productrows_set (rowsParams (JStr ''501'') exRows)] \<and>
   status (fst (handler exEnv ''r1'' (exRequest ''POST'' ''orders/updated'' exOrderBare))) = Some 200 \<and>
   callsTo productrows_set
     (snd (handler exEnv ''r1'' (exRequest ''POST'' ''orders/updated'' exOrderBare))) =
     [CallBitrix productrows_set (rowsParams (JStr ''501'') [])] \<and>
   status (fst (handler (exEnv\<lparr>callBitrix := exBitrixUpdateFails\<rparr>) ''r1''
                  (exRequest ''POST'' ''orders/updated'' exOrderBare))) = Some 500 \<and>
   callsTo productrows_set
     (snd (handler (exEnv\<lparr>callBitrix := exBitrixUpdateFails\<rparr>) ''r1''
             (exRequest ''POST'' ''orders/updated'' exOrderBare))) = []"
proof -
  let ?F = "exEnv\<lparr>callBitrix := exBitrixUpdateFails\<rparr>"
  let ?a = "exRequest ''POST'' ''orders/updated'' exOrder"
  let ?b = "exRequest ''POST'' ''orders/updated'' exOrderBare"
  have m: "req_method ?a = ''POST''" "req_method ?b = ''POST''"
    by (simp_all add: exRequest_simps)
  have t: "topicOf ?a = JStr ''orders/updated''" "topicOf ?b = JStr ''orders/updated''"
    by (simp_all add: exRequest_simps)
  have n: "\<not> nullish (req_body ?a)" "\<not> nullish (req_body ?b)"
    by (simp_all add: exRequest_simps exOrder_def exOrderBare_def)
  have p: "printableLabels (req_body ?a)" "printableLabels (req_body ?b)"
    by (simp_all add: exRequest_simps exOrder_def exOrderBare_def printableLabels_def
          orderIdOf_def orderNameOf_def optProp_def jor_def)
  have i: "ToString E (getProp (req_body ?a) ''id'') = Inr ''1001''"
    "ToString E (getProp (req_body ?b) ''id'') = Inr ''1001''" for E
    by (simp_all add: exRequest_simps exOrder_def exOrderBare_def ToString_def)
  have l: "callBitrix exEnv deal_list (listParams ''1001'') = Inr (exListRespOf (exDealIn ''2''))"
    "callBitrix ?F deal_list (listParams ''1001'') = Inr (exListRespOf (exDealIn ''2''))"
    by (simp_all add: exEnv_def exBitrix_def exCrm_def exDeal_def exBitrixUpdateFails_def)
  have u: "\<not> unprintable (getProp (exDealIn ''2'') ''ID'')"
    by (simp add: exDealIn_def)
  have c: "ToNumber exEnv (getProp (exDealIn ''2'') ''CATEGORY_ID'') = Inr (Fin 2)"
    "ToNumber ?F (getProp (exDealIn ''2'') ''CATEGORY_ID'') = Inr (Fin 2)"
    by (simp_all add: exDealIn_def ToNumber_def exEnv_def exStringToNumber_def)
  have o: "orderCategory exEnv (req_body ?a) = Inr (JNum (Fin 2))"
    "orderCategory exEnv (req_body ?b) = Inr (JNum (Fin 2))"
    "orderCategory ?F (req_body ?b) = Inr (JNum (Fin 2))"
    by (simp_all add: exRequest_simps exOrder_def exOrderBare_def orderCategory_def
          orderTags_def bindE_def exEnv_def)
  have f: "updateFields exEnv (req_body ?a) (exDealIn ''2'') (JNum (Fin 2)) (categoryOr2 (Fin 2)) =
             Inr [(UF_PAYMENT, JStr ''58'')]"
    "updateFields exEnv (req_body ?b) (exDealIn ''2'') (JNum (Fin 2)) (categoryOr2 (Fin 2)) =
             Inr [(UF_PAYMENT, JStr ''58'')]"
    "updateFields ?F (req_body ?b) (exDealIn ''2'') (JNum (Fin 2)) (categoryOr2 (Fin 2)) =
             Inr [(UF_PAYMENT, JStr ''58'')]"
    by (simp_all add: exRequest_simps exOrder_def exOrderBare_def exDealIn_def updateFields_def
          categoryOr2_def orderAmount_def firstShippingLinePrice_def optProp_def jor_def bindE_def
          ToNumber_def ToString_def exEnv_def exStringToNumber_def exStage_def exPayment_def)
  have k: "\<exists>ack. callBitrix exEnv deal_update p = Inr ack"
    "\<exists>e. callBitrix ?F deal_update p = Inl e" for p
    by (simp_all add: exEnv_def exBitrix_def exCrm_def exBitrixUpdateFails_def)
  have r: "productRows (mapShopifyOrderToBitrixDeal exEnv (req_body ?a)) = exRows"
    "productRows (mapShopifyOrderToBitrixDeal exEnv (req_body ?b)) = []"
    by (simp_all add: exRequest_simps exEnv_def exMapper_def exOrder_def exOrderBare_def)
  show ?thesis
    using product_rows_resynced [OF m(1) t(1) n(1) p(1) i(1) l(1) exDeal_found(1) u c(1) o(1) f(1),
            where rid = "''r1''"]
          product_rows_resynced [OF m(2) t(2) n(2) p(2) i(2) l(1) exDeal_found(1) u c(1) o(2) f(2),
            where rid = "''r1''"]
          product_rows_resynced [OF m(2) t(2) n(2) p(2) i(2) l(2) exDeal_found(1) u c(2) o(3) f(3),
            where rid = "''r1''"]
          k
    by (simp add: r exDeal_found(2))
qed

text \<open>The claim as stated fails: when the update-deal call throws, the handler ends there;
  the deal was found, the reply is 500, and the run has no set-product-rows call.\<close>

theorem update_failure_skips_rows:
  "dealFound exListResp exDeal \<and>
   callBitrix (exEnv\<lparr>callBitrix := exBitrixUpdateFails\<rparr>) deal_list (listParams ''1001'') =
     Inr exListResp \<and>
   status (fst (handler (exEnv\<lparr>callBitrix := exBitrixUpdateFails\<rparr>) ''r1''
                  (exRequest ''POST'' ''orders/updated'' exOrder))) = Some 500 \<and>
   callsTo productrows_set
     (snd (handler (exEnv\<lparr>callBitrix := exBitrixUpdateFails\<rparr>) ''r1''
             (exRequest ''POST'' ''orders/updated'' exOrder))) = []"
  by (simp add: handler_defs ex_defs exBitrixUpdateFails_def dealFound_def callsTo_def
        isCallTo_def run_defs trim_def trimStart_def trimEnd_def stripHead.simps whiteSpace_def)

subsection \<open>Order updated: the monetary fields\<close>

text \<open>
  C8, as the code has it. In the fields of an \<^verbatim>\<open>orders/updated\<close> event, once they are
  computed, the discount total is present exactly when the order has
  \<^verbatim>\<open>current_total_discounts\<close>, the tax total exactly when it has \<^verbatim>\<open>current_total_tax\<close>,
  and the shipping price exactly when its first shipping line has a \<^verbatim>\<open>price\<close>; a field
  that is present holds the number read from the order. None of this depends on the deal,
  so none depends on a difference to the deal's current value.
\<close>

theorem monetary_fields_by_presence:
  assumes "updateFields E order deal categoryId currentCategoryId = Inr fs"
  shows
  "(''UF_SHOPIFY_TOTAL_DISCOUNT'' \<in> set (Object_keys fs)) =
     (getProp order ''current_total_discounts'' \<noteq> JUndefined) \<and>
   (''UF_SHOPIFY_TOTAL_TAX'' \<in> set (Object_keys fs)) =
     (getProp order ''current_total_tax'' \<noteq> JUndefined) \<and>
   (''UF_SHOPIFY_SHIPPING_PRICE'' \<in> set (Object_keys fs)) =
     (firstShippingLinePrice order \<noteq> JUndefined) \<and>
   lookup fs ''UF_SHOPIFY_TOTAL_DISCOUNT'' =
     (if getProp order ''current_total_discounts'' \<noteq> JUndefined
      then JNum (numberOf E (getProp order ''current_total_discounts'')) else JUndefined) \<and>
   lookup fs ''UF_SHOPIFY_TOTAL_TAX'' =
     (if getProp order ''current_total_tax'' \<noteq> JUndefined
      then JNum (numberOf E (getProp order ''current_total_tax'')) else JUndefined) \<and>
   lookup fs ''UF_SHOPIFY_SHIPPING_PRICE'' =
     (if firstShippingLinePrice order \<noteq> JUndefined
      then JNum (numberOf E (shippingSource order)) else JUndefined)"
  using updateFields_keys(5-7)[OF assms] updateFields_lookup(2-4)[OF assms]
  by (simp del: lookup.simps)

theorem monetary_fields_by_presence_witness:
  "updateFields exEnv exOrderTaxed exDeal (JNum (Fin 2)) (JNum (Fin 2)) =
     Inr [(UF_PAYMENT, JStr ''58''),
          (''UF_SHOPIFY_TOTAL_DISCOUNT'', JNum (Fin 5)),
          (''UF_SHOPIFY_TOTAL_TAX'', JNum (Fin (15 / 2)))] \<and>
   numberOf exEnv (getProp exOrderTaxed ''current_total_discounts'') = Fin 5 \<and>
   numberOf exEnv (getProp exOrderTaxed ''current_total_tax'') = Fin (15 / 2) \<and>
   firstShippingLinePrice exOrderTaxed = JUndefined \<and>
   updateFields exEnv exOrderShipLine exDeal (JNum (Fin 2)) (JNum (Fin 2)) =
     Inr [(UF_PAYMENT, JStr ''58''), (''UF_SHOPIFY_SHIPPING_PRICE'', JNum (Fin 5))] \<and>
   firstShippingLinePrice exOrderShipLine = JStr ''7.50'' \<and>
   numberOf exEnv (shippingSource exOrderShipLine) = Fin 5 \<and>
   getProp exOrderShipLine ''current_total_discounts'' = JUndefined \<and>
   getProp exOrderShipLine ''current_total_tax'' = JUndefined"
proof -
  have a: "updateFields exEnv exOrderTaxed exDeal (JNum (Fin 2)) (JNum (Fin 2)) =
     Inr [(UF_PAYMENT, JStr ''58''),
          (''UF_SHOPIFY_TOTAL_DISCOUNT'', JNum (Fin 5)),
          (''UF_SHOPIFY_TOTAL_TAX'', JNum (Fin (15 / 2)))]"
    by (simp add: exOrderTaxed_def exDeal_def exDealIn_def updateFields_def
          orderAmount_def firstShippingLinePrice_def optProp_def jor_def bindE_def ToNumber_def
          ToString_def exEnv_def exStringToNumber_def exStage_def exPayment_def)
  have b: "updateFields exEnv exOrderShipLine exDeal (JNum (Fin 2)) (JNum (Fin 2)) =
     Inr [(UF_PAYMENT, JStr ''58''), (''UF_SHOPIFY_SHIPPING_PRICE'', JNum (Fin 5))]"
    by (simp add: exOrderShipLine_def exDeal_def exDealIn_def updateFields_def
          orderAmount_def firstShippingLinePrice_def shippingPrice_def shippingSource_def
          shopMoneyAmount_def optProp_def jor_def bindE_def ToNumber_def
          ToString_def exEnv_def exStringToNumber_def exStage_def exPayment_def)
  have c: "firstShippingLinePrice exOrderShipLine = JStr ''7.50''"
    by (simp add: exOrderShipLine_def firstShippingLinePrice_def optProp_def)
  show ?thesis
    using monetary_fields_by_presence [OF a] monetary_fields_by_presence [OF b] a b c
    by (simp add: Object_keys_def split: if_splits)
qed

text \<open>The claim as stated fails for the shipping price: this order carries a shipping
  total of 5.00, which the handler's own chain of sources reads, but no shipping line, and
  the update goes out without the shipping field.\<close>

theorem shipping_provided_but_not_sent:
  "shopMoneyAmount (getProp exOrderShipping ''current_total_shipping_price_set'') = JStr ''5.00'' \<and>
   shippingPrice exEnv exOrderShipping = Inr (Fin 5) \<and>
   updateFields exEnv exOrderShipping exDeal (JNum (Fin 2)) (JNum (Fin 2)) =
     Inr [(UF_PAYMENT, JStr ''58'')] \<and>
   callsTo deal_update
     (snd (handler exEnv ''r1'' (exRequest ''POST'' ''orders/updated'' exOrderShipping))) =
     [CallBitrix deal_update (updateParams (JStr ''501'') [(UF_PAYMENT, JStr ''58'')])]"
  by (simp add: handler_defs ex_defs exOrderShipping_def callsTo_def isCallTo_def run_defs)

end
